theory Spec2Isabelle
  imports Complex_Main "HOL-Library.Word" "HOL-Library.Sublist"
begin

section \<open>The transfer tracking session: \<open>useTransactionsView\<close>\<close>

text \<open>
  The hook \<open>useTransactionsView\<close> (src/views/Transactions/useTransactionsView.ts) keeps
  its state in React state cells and acts on the outside world through the transfers
  history client (\<open>txClient\<close>), the timer queue of the JavaScript runtime
  (\<open>setTimeout\<close>, \<open>clearInterval\<close>) and the console. The model is one record that
  holds the state cells together with the part of the outside world the hook touches;
  each effect body, effect cleanup and callback of the source is one function on it.
\<close>

type_synonym address = string

definition MAX_TIME_FOR_FETCHING_TX :: nat where
  "MAX_TIME_FOR_FETCHING_TX = 5 * 60 * 1000"

text \<open>
  A JavaScript number: \<open>NaN\<close>, an infinity (\<open>Infinity True\<close> is the negative one) or a
  finite value (the two zeros are not told apart).
\<close>

datatype js_number = NaN | Infinity bool | Finite rat

definition DEFAULT_TX_HISTORY_PAGE_SIZE :: js_number where
  "DEFAULT_TX_HISTORY_PAGE_SIZE = Finite 10"

text \<open>
  What \<open>getTxHistoryPageSize()\<close> can return: its type is \<open>number | undefined\<close>.
\<close>

datatype stored_page_size = Undefined | Number js_number

text \<open>JavaScript truthiness on that type: \<open>undefined\<close>, \<open>NaN\<close> and \<open>0\<close> are falsy.\<close>

fun falsy :: "stored_page_size \<Rightarrow> bool" where
  "falsy Undefined = True"
| "falsy (Number NaN) = True"
| "falsy (Number (Infinity negative)) = False"
| "falsy (Number (Finite q)) = (q = 0)"

text \<open>
  \<open>getTxHistoryPageSize() || DEFAULT_TX_HISTORY_PAGE_SIZE\<close>: the operator \<open>||\<close> returns
  its left operand when that is truthy and its right operand otherwise.
\<close>

definition initial_pageSize :: "stored_page_size \<Rightarrow> js_number" where
  "initial_pageSize stored =
     (case stored of
        Undefined \<Rightarrow> DEFAULT_TX_HISTORY_PAGE_SIZE
      | Number n \<Rightarrow> if falsy (Number n) then DEFAULT_TX_HISTORY_PAGE_SIZE else n)"

text \<open>The two calls the hook makes on the client, in the order it makes them.\<close>

datatype client_call = StartFetchingTransfers address | StopFetchingTransfers address

text \<open>
  A pending \<open>setTimeout\<close>: the handle it returned, the time (in ms) at which it is due,
  and the \<open>account\<close> its callback closed over.
\<close>

record timeout =
  handle :: nat
  due :: nat
  closure_account :: address

text \<open>
  The state cells of the hook (\<open>account\<close> is the value \<open>useConnection()\<close> gave at the
  last committed render; \<open>timer_dep\<close> is the value of \<open>timer\<close> captured by the cleanup
  closure of the third effect, that is its dependency at the render that installed it)
  and the outside world: the clock, the timer queue, the next handle \<open>setTimeout\<close>
  will return, the calls made on the client and the lines written by \<open>console.error\<close>.
\<close>

record 't view =
  txClient :: bool
  account :: "address option"
  pageSize :: js_number
  rawFilledTx :: "'t list"
  rawOngoingTx :: "'t list"
  initialLoading :: bool
  timer :: "nat option"
  timer_dep :: "nat option"
  now :: nat
  timeouts :: "timeout list"
  next_handle :: nat
  client_calls :: "client_call list"
  console :: "string list"

text \<open>\<open>account && txClient\<close>: \<open>undefined\<close> and the empty string are falsy.\<close>

definition tracked :: "'t view \<Rightarrow> address option \<Rightarrow> bool" where
  "tracked s a = (case a of None \<Rightarrow> False | Some x \<Rightarrow> x \<noteq> [] \<and> txClient s)"

text \<open>
  The listener of the first effect (lines 40 to 51), registered when \<open>txClient\<close> is
  there. \<open>getFilledTransfers\<close> and \<open>getPendingTransfers\<close> are the client's getters at
  the moment of the event, \<open>depositorAddr\<close> is the field of the event's data.
\<close>

definition TransfersUpdated_listener ::
  "(address \<Rightarrow> 't list) \<Rightarrow> (address \<Rightarrow> 't list) \<Rightarrow> address \<Rightarrow> 't view \<Rightarrow> 't view" where
  "TransfersUpdated_listener getFilledTransfers getPendingTransfers depositorAddr s =
     (if txClient s
      then s\<lparr>initialLoading := False,
             rawFilledTx := getFilledTransfers depositorAddr,
             rawOngoingTx := getPendingTransfers depositorAddr\<rparr>
      else s)"

text \<open>The body of the second effect (lines 56 to 70), run with \<open>account\<close> as rendered.\<close>

definition start_effect :: "'t view \<Rightarrow> 't view" where
  "start_effect s =
     (if tracked s (account s)
      then s\<lparr>initialLoading := True,
             client_calls := client_calls s @ [StartFetchingTransfers (the (account s))],
             timeouts := timeouts s @
               [\<lparr>handle = next_handle s, due = now s + MAX_TIME_FOR_FETCHING_TX,
                 closure_account = the (account s)\<rparr>],
             next_handle := Suc (next_handle s),
             timer := Some (next_handle s)\<rparr>
      else s)"

text \<open>
  The handler given to \<open>.catch\<close> on the promise of \<open>startFetchingTransfers\<close>
  (lines 58 to 63): one \<open>console.error\<close>, nothing else.
\<close>

definition startFetchingTransfers_catch :: "'t view \<Rightarrow> 't view" where
  "startFetchingTransfers_catch s =
     s\<lparr>console := console s @ [''Error in txHistoryClient::startFetchingTransfers call'']\<rparr>"

text \<open>The cleanup of the second effect (lines 72 to 78), closed over the account \<open>a\<close>.\<close>

definition start_cleanup :: "address option \<Rightarrow> 't view \<Rightarrow> 't view" where
  "start_cleanup a s =
     (if tracked s a
      then s\<lparr>client_calls := client_calls s @ [StopFetchingTransfers (the a)],
             rawFilledTx := [],
             rawOngoingTx := []\<rparr>
      else s)"

text \<open>
  \<open>clearInterval(h)\<close>: the pending timer with that handle, if any, leaves the queue
  (timeouts and intervals share their handles, so that \<open>clearInterval\<close> clears a
  timeout as \<open>clearTimeout\<close> does).
\<close>

definition clearInterval :: "nat \<Rightarrow> 't view \<Rightarrow> 't view" where
  "clearInterval h s = s\<lparr>timeouts := filter (\<lambda>e. handle e \<noteq> h) (timeouts s)\<rparr>"

text \<open>
  The cleanup of the third effect (lines 82 to 88), closed over the value \<open>t\<close> of
  \<open>timer\<close>; \<open>if (timer)\<close> is false for \<open>undefined\<close> and for the handle 0.
\<close>

definition timer_cleanup :: "nat option \<Rightarrow> 't view \<Rightarrow> 't view" where
  "timer_cleanup t s =
     (case t of None \<Rightarrow> s | Some h \<Rightarrow> if h \<noteq> 0 then clearInterval h s else s)"

text \<open>The callback given to \<open>setTimeout\<close> (lines 65 to 68), for the queue entry \<open>e\<close>.\<close>

definition timeout_callback :: "timeout \<Rightarrow> 't view \<Rightarrow> 't view" where
  "timeout_callback e s =
     s\<lparr>client_calls := client_calls s @ [StopFetchingTransfers (closure_account e)],
       timer := None\<rparr>"

subsection \<open>React's scheduling of the effects\<close>

text \<open>
  A render whose dependency \<open>account\<close> differs from the one of the last commit runs the
  cleanup of the second effect with the old account and then its body with the new one.
  The \<open>setTimer\<close> of the body is a state change: it takes effect in the render that
  follows, \<open>rerender\<close>, where the dependency \<open>timer\<close> of the third effect has changed,
  so that the cleanup installed for the old value runs and a new one is installed.
\<close>

definition account_change :: "address option \<Rightarrow> 't view \<Rightarrow> 't view" where
  "account_change a s =
     (if a = account s then s
      else start_effect ((start_cleanup (account s) s)\<lparr>account := a\<rparr>))"

definition rerender :: "'t view \<Rightarrow> 't view" where
  "rerender s =
     (if timer s = timer_dep s then s
      else (timer_cleanup (timer_dep s) s)\<lparr>timer_dep := timer s\<rparr>)"

text \<open>
  The first render: every state cell has its initial value, every effect runs its body.
  \<open>t0\<close> is the time of the mount; browsers hand out timer handles from 1.
\<close>

definition initial_view :: "bool \<Rightarrow> address option \<Rightarrow> stored_page_size \<Rightarrow> nat \<Rightarrow> 't view" where
  "initial_view c a stored t0 =
     \<lparr>txClient = c, account = a, pageSize = initial_pageSize stored,
      rawFilledTx = [], rawOngoingTx = [], initialLoading = False,
      timer = None, timer_dep = None, now = t0, timeouts = [], next_handle = 1,
      client_calls = [], console = []\<rparr>"

definition mount :: "bool \<Rightarrow> address option \<Rightarrow> stored_page_size \<Rightarrow> nat \<Rightarrow> 't view" where
  "mount c a stored t0 = rerender (start_effect (initial_view c a stored t0))"

text \<open>Unmounting runs the cleanups of the effects in the order of their declaration.\<close>

definition unmount :: "'t view \<Rightarrow> 't view" where
  "unmount s = timer_cleanup (timer_dep s) (start_cleanup (account s) s)"

text \<open>
  A timer of the queue fires: it leaves the queue, its callback runs, and the state
  change of the callback is rendered.
\<close>

definition fire :: "timeout \<Rightarrow> 't view \<Rightarrow> 't view" where
  "fire e s =
     (if e \<in> set (timeouts s)
      then rerender (timeout_callback e (s\<lparr>timeouts := remove1 e (timeouts s)\<rparr>))
      else s)"

text \<open>
  \<open>dt\<close> milliseconds pass: the timers due by then fire, the oldest first (all timers of
  the hook have the same delay, so the queue is in the order of the due times).
\<close>

definition elapse :: "nat \<Rightarrow> 't view \<Rightarrow> 't view" where
  "elapse dt s =
     foldl (\<lambda>s' e. fire e s') (s\<lparr>now := now s + dt\<rparr>)
       (filter (\<lambda>e. due e \<le> now s + dt) (timeouts s))"

text \<open>What can happen to a mounted hook, each event handled to the end.\<close>

datatype 't event =
    AccountChanged "address option"
  | TransfersUpdated "address \<Rightarrow> 't list" "address \<Rightarrow> 't list" address
  | StartFetchingRejected
  | Elapsed nat

fun step :: "'t view \<Rightarrow> 't event \<Rightarrow> 't view" where
  "step s (AccountChanged a) = rerender (account_change a s)"
| "step s (TransfersUpdated f p d) = TransfersUpdated_listener f p d s"
| "step s StartFetchingRejected = startFetchingTransfers_catch s"
| "step s (Elapsed dt) = elapse dt s"

definition run :: "'t view \<Rightarrow> 't event list \<Rightarrow> 't view" where
  "run s evs = foldl step s evs"

text \<open>
  The client's getters read its store of transfers per depositor; an address the
  client has nothing for gives the empty list.
\<close>

definition transfers_of :: "(address \<times> 't list) list \<Rightarrow> address \<Rightarrow> 't list" where
  "transfers_of store a = (case map_of store a of None \<Rightarrow> [] | Some ts \<Rightarrow> ts)"



text \<open>
  The state between two events: the third effect has seen the current \<open>timer\<close>, and
  the queue holds no timer, or the one timer whose handle \<open>timer\<close> holds.
\<close>

definition settled :: "'t view \<Rightarrow> bool" where
  "settled s = (timer_dep s = timer s \<and> 0 < next_handle s \<and>
     (case timeouts s of
        [] \<Rightarrow> True
      | [e] \<Rightarrow> timer s = Some (handle e) \<and> handle e \<noteq> 0 \<and> handle e < next_handle s
      | _ \<Rightarrow> False))"

section \<open>The liquidity form: \<open>AddLiquidityForm\<close>\<close>

text \<open>
  The component \<open>AddLiquidityForm\<close> holds two state cells of its own
  (\<open>userNeedsToApprove\<close>, \<open>txSubmitted\<close>), reads its props and the wallet connection,
  and writes to its parent through \<open>setAmount\<close>, \<open>setShowSuccess\<close> and
  \<open>setDepositUrl\<close>. Outside it are the wallet and pool clients, the transaction
  notifier, the timer queue and the console. As for the hook, one record holds all of
  it, and each handler of the source is a function on that record; what the outside
  answers to a call is an argument of the handler that makes the call.
\<close>

subsection \<open>\<open>Number(amount) > 0\<close>\<close>

text \<open>
  \<open>Number\<close> applied to a string reads it by the grammar \<open>StringNumericLiteral\<close> of
  ECMAScript. A character is a code unit below 256 here. The result of reading is the
  mathematical value of the literal, before it is rounded to a double: not a number,
  an infinity, or \<open>m * 10 ^ e\<close> with a sign.
\<close>

datatype numeric_literal = NotNumeric | InfinityLiteral bool | DecimalLiteral bool nat int

definition StrWhiteSpaceChar :: "char \<Rightarrow> bool" where
  "StrWhiteSpaceChar c = (of_char c \<in> {9, 10, 11, 12, 13, 32, 160 :: nat})"

definition DecimalDigit :: "char \<Rightarrow> bool" where
  "DecimalDigit c = (48 \<le> (of_char c :: nat) \<and> (of_char c :: nat) \<le> 57)"

definition digit_in_radix :: "nat \<Rightarrow> char \<Rightarrow> nat option" where
  "digit_in_radix r c =
     (let n = (of_char c :: nat);
          v = (if 48 \<le> n \<and> n \<le> 57 then n - 48
               else if 97 \<le> n \<and> n \<le> 102 then n - 87
               else if 65 \<le> n \<and> n \<le> 70 then n - 55
               else r)
      in if v < r then Some v else None)"

definition digits_MV :: "nat \<Rightarrow> string \<Rightarrow> nat" where
  "digits_MV r ds = foldl (\<lambda>n c. r * n + the (digit_in_radix r c)) 0 ds"

text \<open>\<open>0b\<close>, \<open>0o\<close> and \<open>0x\<close> literals: no sign, at least one digit of the radix.\<close>

definition NonDecimalIntegerLiteral :: "string \<Rightarrow> nat option" where
  "NonDecimalIntegerLiteral t =
     (case t of
        c0 # c1 # ds \<Rightarrow>
          (let r = (if c1 = CHR ''b'' \<or> c1 = CHR ''B'' then 2
                    else if c1 = CHR ''o'' \<or> c1 = CHR ''O'' then 8
                    else if c1 = CHR ''x'' \<or> c1 = CHR ''X'' then 16
                    else 0 :: nat)
           in if c0 = CHR ''0'' \<and> r \<noteq> 0 \<and> ds \<noteq> [] \<and>
                 list_all (\<lambda>c. digit_in_radix r c \<noteq> None) ds
              then Some (digits_MV r ds) else None)
      | _ \<Rightarrow> None)"

definition SignedInteger :: "string \<Rightarrow> int option" where
  "SignedInteger t =
     (let neg = (case t of c # _ \<Rightarrow> c = CHR ''-'' | [] \<Rightarrow> False);
          ds = (case t of c # r \<Rightarrow> if c = CHR ''-'' \<or> c = CHR ''+'' then r else t | [] \<Rightarrow> t)
      in if ds \<noteq> [] \<and> list_all DecimalDigit ds
         then Some (if neg then - int (digits_MV 10 ds) else int (digits_MV 10 ds))
         else None)"

definition ExponentPart_opt :: "string \<Rightarrow> int option" where
  "ExponentPart_opt t =
     (case t of
        [] \<Rightarrow> Some 0
      | c # r \<Rightarrow> if c = CHR ''e'' \<or> c = CHR ''E'' then SignedInteger r else None)"

definition StrUnsignedDecimalLiteral :: "bool \<Rightarrow> string \<Rightarrow> numeric_literal" where
  "StrUnsignedDecimalLiteral neg u =
     (if u = ''Infinity'' then InfinityLiteral neg
      else
        let ip = takeWhile DecimalDigit u;
            r1 = dropWhile DecimalDigit u;
            dot = (case r1 of c # _ \<Rightarrow> c = CHR ''.'' | [] \<Rightarrow> False);
            fp = (if dot then takeWhile DecimalDigit (tl r1) else []);
            r2 = (if dot then dropWhile DecimalDigit (tl r1) else r1)
        in if ip = [] \<and> fp = [] then NotNumeric
           else (case ExponentPart_opt r2 of
                   None \<Rightarrow> NotNumeric
                 | Some e \<Rightarrow> DecimalLiteral neg (digits_MV 10 (ip @ fp)) (e - int (length fp))))"

definition StrDecimalLiteral :: "string \<Rightarrow> numeric_literal" where
  "StrDecimalLiteral t =
     (case t of
        c # r \<Rightarrow>
          if c = CHR ''-'' then StrUnsignedDecimalLiteral True r
          else if c = CHR ''+'' then StrUnsignedDecimalLiteral False r
          else StrUnsignedDecimalLiteral False t
      | [] \<Rightarrow> StrUnsignedDecimalLiteral False t)"

definition StringNumericLiteral :: "string \<Rightarrow> numeric_literal" where
  "StringNumericLiteral s =
     (let t = rev (dropWhile StrWhiteSpaceChar (rev (dropWhile StrWhiteSpaceChar s)))
      in if t = [] then DecimalLiteral False 0 0
         else (case NonDecimalIntegerLiteral t of
                 Some n \<Rightarrow> DecimalLiteral False n 0
               | None \<Rightarrow> StrDecimalLiteral t))"

text \<open>
  \<open>Number(s) > 0\<close>. \<open>NaN > 0\<close> is false. A positive value rounds to a positive double
  unless rounding to nearest, ties to even, takes it to 0, that is unless it is at most
  half of the least positive double, \<open>2 ^ -1075\<close>.
\<close>

definition Number_gt_0 :: "string \<Rightarrow> bool" where
  "Number_gt_0 s =
     (case StringNumericLiteral s of
        NotNumeric \<Rightarrow> False
      | InfinityLiteral neg \<Rightarrow> \<not> neg
      | DecimalLiteral neg m e \<Rightarrow>
          \<not> neg \<and> (if 0 \<le> e then 0 < m else 10 ^ nat (- e) < m * 2 ^ 1075))"

subsection \<open>\<open>formatUnits\<close> and \<open>formatEther\<close> of ethers\<close>

text \<open>\<open>toString()\<close> of a natural number.\<close>

fun decimal :: "nat \<Rightarrow> string" where
  "decimal n =
     (if n < 10 then [''0123456789'' ! n]
      else decimal (n div 10) @ [''0123456789'' ! (n mod 10)])"

declare decimal.simps [simp del]

text \<open>
  What \<open>formatFixed(value, decimals)\<close> builds once it has its multiplier: sign, whole
  part, and after the point the fraction, padded to \<open>decimals\<close> digits, without its
  trailing zeros but not empty.
\<close>

definition strip_trailing_zeros :: "string \<Rightarrow> string" where
  "strip_trailing_zeros fraction =
     (let r = rev (dropWhile (\<lambda>c. c = CHR ''0'') (rev fraction))
      in if r = [] then ''0'' else r)"

definition fixed_string :: "int \<Rightarrow> nat \<Rightarrow> string" where
  "fixed_string v d =
     (let a = nat \<bar>v\<bar>;
          digits = decimal (a mod 10 ^ d);
          fraction = strip_trailing_zeros (replicate (d - length digits) CHR ''0'' @ digits);
          whole = decimal (a div 10 ^ d);
          r = (if d = 0 then whole else whole @ ''.'' @ fraction)
      in if v < 0 then ''-'' @ r else r)"

text \<open>
  \<open>formatUnits(value, decimals)\<close> with a number of decimals is \<open>formatFixed\<close>, which
  throws "invalid decimal size" when the number is above 256: \<open>None\<close> is the throw.
\<close>

definition formatUnits :: "int \<Rightarrow> nat \<Rightarrow> string option" where
  "formatUnits v d = (if d \<le> 256 then Some (fixed_string v d) else None)"

text \<open>\<open>formatEther(wei)\<close> is \<open>formatUnits(wei, 18)\<close>, which does not throw.\<close>

definition formatEther :: "int \<Rightarrow> string" where
  "formatEther wei = the (formatUnits wei 18)"

subsection \<open>\<open>toWeiSafe\<close>\<close>

text \<open>
  Modelled from the spec: \<open>toWeiSafe\<close> (utils/weiMath) is not among the sources.
  The spec asks that the conversion of an amount to its smallest unit use the declared
  decimal precision and reject what is not a valid unsigned decimal numeric string,
  and gives 1500000000000000000 for "1.5" at 18 decimals. The precision is 18 when none
  is given (the result is formatted by \<open>formatEther\<close>); digits of the fraction beyond
  the precision are dropped. \<open>None\<close> is the rejection.
\<close>

definition toWeiSafe :: "string \<Rightarrow> nat option \<Rightarrow> int option" where
  "toWeiSafe numberToConvert desiredPrecision =
     (let d = (case desiredPrecision of None \<Rightarrow> 18 | Some p \<Rightarrow> p);
          ip = takeWhile DecimalDigit numberToConvert;
          r1 = dropWhile DecimalDigit numberToConvert;
          dot = (case r1 of c # _ \<Rightarrow> c = CHR ''.'' | [] \<Rightarrow> False);
          fp = (if dot then tl r1 else [])
      in if ip \<noteq> [] \<and> (r1 = [] \<or> dot \<and> fp \<noteq> [] \<and> list_all DecimalDigit fp)
         then Some (int (digits_MV 10 (ip @ take d fp) * 10 ^ (d - length fp)))
         else None)"

subsection \<open>State and handlers\<close>

text \<open>
  \<open>ethers.constants.MaxUint256\<close>, the greatest value of an unsigned integer of 256
  bits (all bits set); amounts are the unbounded integers of \<open>BigNumber\<close>.
\<close>

definition MAX_UINT_VAL :: int where
  "MAX_UINT_VAL = uint (- 1 :: 256 word)"

definition INFINITE_APPROVAL_AMOUNT :: int where
  "INFINITE_APPROVAL_AMOUNT = MAX_UINT_VAL"

text \<open>A call on the outside answers with a value or fails.\<close>

datatype 'a outcome = Rejected | Resolved 'a

text \<open>The calls the component makes on the outside, in the order it makes them.\<close>

datatype call =
    OnboardInit
  | Allowance address address address
  | Approve int address
  | AddEthLiquidity address int
  | AddTokenLiquidity address int
  | GetTx
  | NotifyHash string
  | UpdatePool address
  | UpdateUser address address

text \<open>
  The listeners a handler puts on the emitter of a transaction hash: those of
  \<open>handleApprove\<close>, or those of the liquidity transaction, closed over
  \<open>transaction.hash\<close>, \<open>acc\<close> and \<open>bridgeAddress\<close>.
\<close>

datatype listeners = ApproveListeners | LiquidityListeners string "address option" address

datatype emitted = TxConfirmed | TxError

text \<open>A pending \<open>setTimeout\<close> of the confirmation listener.\<close>

record refresh =
  refresh_due :: nat
  refresh_bridge :: address
  refresh_acc :: "address option"

record form =
  provider :: bool
  isConnected :: bool
  signer :: bool
  connected_account :: "address option"
  bridgeAddress :: address
  tokenAddress :: address
  decimals :: nat
  symbol :: string
  balance :: int
  amount :: string
  userNeedsToApprove :: bool
  txSubmitted :: bool
  showSuccess :: bool
  depositUrl :: string
  clock :: nat
  refreshes :: "refresh list"
  emitters :: "(string \<times> listeners) list"
  calls :: "call list"
  console_output :: "string list"

text \<open>A string or an account is truthy when it is there and not empty.\<close>

definition truthy :: "string option \<Rightarrow> bool" where
  "truthy a = (case a of None \<Rightarrow> False | Some x \<Rightarrow> x \<noteq> [])"

text \<open>
  \<open>checkIfUserHasToApprove\<close> (lines 59 to 73); \<open>answer\<close> is what
  \<open>token.allowance(account, bridgeAddress)\<close> gives.
\<close>

definition checkIfUserHasToApprove :: "int outcome \<Rightarrow> form \<Rightarrow> form" where
  "checkIfUserHasToApprove answer s =
     (if signer s \<and> truthy (connected_account s)
      then
        (let s1 = s\<lparr>calls := calls s @
                    [Allowance (tokenAddress s) (the (connected_account s)) (bridgeAddress s)]\<rparr>
         in case answer of
              Resolved allowance \<Rightarrow>
                if allowance < balance s then s1\<lparr>userNeedsToApprove := True\<rparr> else s1
            | Rejected \<Rightarrow>
                s1\<lparr>console_output := console_output s1 @ [''err in check approval call'']\<rparr>)
      else s)"

text \<open>The effect of lines 75 to 77.\<close>

definition allowance_effect :: "int outcome \<Rightarrow> form \<Rightarrow> form" where
  "allowance_effect answer s =
     (if isConnected s \<and> symbol s \<noteq> ''ETH'' then checkIfUserHasToApprove answer s else s)"

text \<open>
  \<open>handleApprove\<close> (lines 79 to 100); \<open>answer\<close> is what \<open>approve\<close> gives: it fails, or
  it gives no transaction, or a transaction with its hash. \<open>Inl\<close> is the state at
  which the handler threw.
\<close>

definition handleApprove :: "string option outcome \<Rightarrow> form \<Rightarrow> form + form" where
  "handleApprove answer s =
     (let s1 = s\<lparr>calls := calls s @ [Approve INFINITE_APPROVAL_AMOUNT (bridgeAddress s)]\<rparr>
      in case answer of
           Rejected \<Rightarrow> Inl s1
         | Resolved None \<Rightarrow> Inr s1
         | Resolved (Some hash) \<Rightarrow>
             Inr (s1\<lparr>txSubmitted := True,
                     calls := calls s1 @ [NotifyHash hash],
                     emitters := emitters s1 @ [(hash, ApproveListeners)]\<rparr>))"

text \<open>
  \<open>approveOrPoolTransactionHandler\<close> (lines 102 to 158). \<open>toWei\<close> is \<open>toWeiSafe\<close>,
  \<open>approved\<close> is what \<open>approve\<close> gives, and \<open>added\<close> is what the pool client gives:
  the call of \<open>addEthLiquidity\<close> or \<open>addTokenLiquidity\<close> fails, or \<open>getTx\<close> gives a
  transaction, with or without a hash. The conversion by \<open>toWei\<close> stands before the
  \<open>try\<close>: when it throws, the handler throws.
\<close>

definition approveOrPoolTransactionHandler ::
  "(string \<Rightarrow> nat option \<Rightarrow> int option) \<Rightarrow> string option outcome \<Rightarrow>
   string option outcome \<Rightarrow> form \<Rightarrow> form + form" where
  "approveOrPoolTransactionHandler toWei approved added s =
     (if \<not> provider s then Inr (s\<lparr>calls := calls s @ [OnboardInit]\<rparr>)
      else if isConnected s \<and> userNeedsToApprove s then handleApprove approved s
      else if isConnected s \<and> Number_gt_0 (amount s) \<and> signer s then
        (case toWei (amount s) (Some (decimals s)) of
           None \<Rightarrow> Inl s
         | Some weiAmount \<Rightarrow>
             (let s1 = s\<lparr>calls := calls s @
                         [if symbol s = ''ETH''
                          then AddEthLiquidity (bridgeAddress s) weiAmount
                          else AddTokenLiquidity (bridgeAddress s) weiAmount]\<rparr>
              in case added of
                   Rejected \<Rightarrow>
                     Inr (s1\<lparr>console_output :=
                               console_output s1 @ [''err in AddEthLiqudity call'']\<rparr>)
                 | Resolved transaction_hash \<Rightarrow>
                     (let s2 = s1\<lparr>calls := calls s1 @ [GetTx]\<rparr>
                      in if truthy transaction_hash
                         then Inr (s2\<lparr>txSubmitted := True,
                                      calls := calls s2 @ [NotifyHash (the transaction_hash)],
                                      emitters := emitters s2 @
                                        [(the transaction_hash,
                                          LiquidityListeners (the transaction_hash)
                                            (connected_account s) (bridgeAddress s))]\<rparr>)
                         else Inr s2)))
      else Inr s)"

text \<open>
  The \<open>onClick\<close> of the form button (lines 208 to 212): what the handler throws is
  caught and logged.
\<close>

definition FormButton_onClick ::
  "(string \<Rightarrow> nat option \<Rightarrow> int option) \<Rightarrow> string option outcome \<Rightarrow>
   string option outcome \<Rightarrow> form \<Rightarrow> form" where
  "FormButton_onClick toWei approved added s =
     (case approveOrPoolTransactionHandler toWei approved added s of
        Inr s' \<Rightarrow> s'
      | Inl s' \<Rightarrow>
          s'\<lparr>console_output := console_output s' @ [''Error on click to approve or pool tx'']\<rparr>)"

text \<open>The listeners (lines 91 to 98 and 135 to 150).\<close>

fun listener :: "listeners \<Rightarrow> emitted \<Rightarrow> form \<Rightarrow> form" where
  "listener ApproveListeners TxConfirmed s =
     s\<lparr>txSubmitted := False, userNeedsToApprove := False\<rparr>"
| "listener ApproveListeners TxError s = s\<lparr>txSubmitted := False\<rparr>"
| "listener (LiquidityListeners hash acc bridge) TxConfirmed s =
     s\<lparr>txSubmitted := False,
       showSuccess := True,
       depositUrl := ''https://etherscan.io/tx/'' @ hash,
       refreshes := refreshes s @
         [\<lparr>refresh_due = clock s + 30000, refresh_bridge = bridge, refresh_acc = acc\<rparr>]\<rparr>"
| "listener (LiquidityListeners hash acc bridge) TxError s = s\<lparr>txSubmitted := False\<rparr>"

text \<open>The notifier emits an event for a hash: the listeners put on that hash run.\<close>

definition emit :: "string \<Rightarrow> emitted \<Rightarrow> form \<Rightarrow> form" where
  "emit hash ev s =
     foldl (\<lambda>s' l. listener l ev s') s
       (map snd (filter (\<lambda>hl. fst hl = hash) (emitters s)))"

text \<open>The callback given to \<open>setTimeout\<close> (lines 141 to 146).\<close>

definition refresh_callback :: "refresh \<Rightarrow> form \<Rightarrow> form" where
  "refresh_callback r s =
     s\<lparr>calls := calls s @ [UpdatePool (refresh_bridge r)] @
         (if truthy (refresh_acc r) then [UpdateUser (the (refresh_acc r)) (refresh_bridge r)]
          else [])\<rparr>"

text \<open>\<open>dt\<close> milliseconds pass: the refreshes due by then leave the queue and run.\<close>

definition wait :: "nat \<Rightarrow> form \<Rightarrow> form" where
  "wait dt s =
     foldl (\<lambda>s' r. refresh_callback r s')
       (s\<lparr>clock := clock s + dt,
          refreshes := filter (\<lambda>r. \<not> refresh_due r \<le> clock s + dt) (refreshes s)\<rparr>)
       (filter (\<lambda>r. refresh_due r \<le> clock s + dt) (refreshes s))"

text \<open>
  The \<open>onClick\<close> of the max button (lines 179 to 188); the button is disabled when the
  wallet is not connected. When \<open>toWei\<close> or \<open>formatUnits\<close> throws, nothing is set.
\<close>

definition MaxButton_onClick :: "(string \<Rightarrow> nat option \<Rightarrow> int option) \<Rightarrow> form \<Rightarrow> form" where
  "MaxButton_onClick toWei s =
     (if \<not> isConnected s then s
      else if symbol s = ''ETH'' then
        (case toWei ''0.1'' None of
           None \<Rightarrow> s
         | Some removeApproxMaxGas \<Rightarrow>
             s\<lparr>amount := formatEther (balance s - removeApproxMaxGas)\<rparr>)
      else
        (case formatUnits (balance s) (decimals s) of
           None \<Rightarrow> s
         | Some formatted \<Rightarrow> s\<lparr>amount := formatted\<rparr>))"

text \<open>A form as it is first rendered, with its props and the wallet connection.\<close>

definition initial_form ::
  "bool \<Rightarrow> bool \<Rightarrow> bool \<Rightarrow> address option \<Rightarrow> address \<Rightarrow> address \<Rightarrow> nat \<Rightarrow> string \<Rightarrow>
   int \<Rightarrow> string \<Rightarrow> form" where
  "initial_form has_provider is_connected has_signer acct bridge token prec sym_name bal amt =
     \<lparr>provider = has_provider, isConnected = is_connected, signer = has_signer,
      connected_account = acct, bridgeAddress = bridge, tokenAddress = token,
      decimals = prec, symbol = sym_name, balance = bal, amount = amt,
      userNeedsToApprove = False, txSubmitted = False,
      showSuccess = False, depositUrl = [], clock = 0, refreshes = [], emitters = [],
      calls = [], console_output = []\<rparr>"

text \<open>The amounts of the approvals, and the liquidity calls, among the calls made.\<close>

fun approve_amounts :: "call list \<Rightarrow> int list" where
  "approve_amounts [] = []"
| "approve_amounts (Approve a spender # cs) = a # approve_amounts cs"
| "approve_amounts (c # cs) = approve_amounts cs"

fun is_liquidity_call :: "call \<Rightarrow> bool" where
  "is_liquidity_call (AddEthLiquidity b w) = True"
| "is_liquidity_call (AddTokenLiquidity b w) = True"
| "is_liquidity_call c = False"

section \<open>Properties of the tracking session\<close>

lemmas view_defs = TransfersUpdated_listener_def start_effect_def
  startFetchingTransfers_catch_def start_cleanup_def clearInterval_def timer_cleanup_def
  timeout_callback_def account_change_def rerender_def tracked_def

subsection \<open>Page size at initialisation\<close>

text \<open>
  C10. At initialisation the page size is 10 when the persisted page-size store returns
  \<open>undefined\<close> or any other falsy value, and the stored value otherwise.
\<close>

theorem pageSize_initialised:
  "(if falsy stored
    then pageSize (mount c a stored t0 :: 't view) = Finite 10
    else stored = Number (pageSize (mount c a stored t0 :: 't view)))"
  by (cases stored)
     (simp_all add: mount_def initial_view_def view_defs initial_pageSize_def
        DEFAULT_TX_HISTORY_PAGE_SIZE_def)

subsection \<open>Updates and the session's account\<close>

text \<open>
  C1, as the spec states it: an update whose account does not match the session's
  account leaves the snapshots unchanged. The listener compares nothing: after a
  session for 0xA and a switch to 0xB, an update for 0xA replaces the (empty) filled
  snapshot shown for 0xB by the transfers of 0xA.
\<close>

theorem stale_update_counterexample:
  "account (run (mount True (Some ''0xA'') Undefined 0)
      [AccountChanged (Some ''0xB''),
       TransfersUpdated (transfers_of [(''0xA'', [7::nat])]) (transfers_of []) ''0xA''])
     = Some ''0xB'' \<and>
   rawFilledTx (run (mount True (Some ''0xA'') Undefined 0)
      [AccountChanged (Some ''0xB'')]) = ([] :: nat list) \<and>
   rawFilledTx (run (mount True (Some ''0xA'') Undefined 0)
      [AccountChanged (Some ''0xB''),
       TransfersUpdated (transfers_of [(''0xA'', [7::nat])]) (transfers_of []) ''0xA''])
     = [7]"
  by (simp add: run_def mount_def initial_view_def view_defs transfers_of_def)

text \<open>
  C1, amended: every update the listener receives, whatever the account \<open>d\<close> it is for
  and whatever the session's account, replaces the filled and the pending snapshot by
  the client's transfers of \<open>d\<close> and clears the initial-loading flag; the session's
  account is neither read nor changed.
\<close>

theorem update_replaces_snapshots:
  assumes "txClient s"
  shows "rawFilledTx (step s (TransfersUpdated f p d)) = f d \<and>
    rawOngoingTx (step s (TransfersUpdated f p d)) = p d \<and>
    \<not> initialLoading (step s (TransfersUpdated f p d)) \<and>
    account (step s (TransfersUpdated f p d)) = account s"
  using assms by (simp add: view_defs)

theorem update_replaces_snapshots_witness:
  "rawFilledTx (step (mount True (Some ''0xB'') Undefined 0)
      (TransfersUpdated (transfers_of [(''0xA'', [7::nat])]) (transfers_of []) ''0xA''))
     = transfers_of [(''0xA'', [7::nat])] ''0xA'' \<and>
   rawOngoingTx (step (mount True (Some ''0xB'') Undefined 0)
      (TransfersUpdated (transfers_of [(''0xA'', [7::nat])]) (transfers_of []) ''0xA''))
     = transfers_of [] ''0xA'' \<and>
   \<not> initialLoading (step (mount True (Some ''0xB'') Undefined 0)
      (TransfersUpdated (transfers_of [(''0xA'', [7::nat])]) (transfers_of []) ''0xA'')) \<and>
   account (step (mount True (Some ''0xB'') Undefined 0)
      (TransfersUpdated (transfers_of [(''0xA'', [7::nat])]) (transfers_of []) ''0xA''))
     = Some ''0xB''"
proof -
  have c: "txClient (mount True (Some ''0xB'') Undefined 0 :: nat view)"
    by (simp add: mount_def initial_view_def view_defs)
  have a: "account (mount True (Some ''0xB'') Undefined 0 :: nat view) = Some ''0xB''"
    by (simp add: mount_def initial_view_def view_defs)
  show ?thesis
    using update_replaces_snapshots [OF c, where f = "transfers_of [(''0xA'', [7::nat])]"
        and d = "''0xA''" and p = "transfers_of []"] a
    by simp
qed

subsection \<open>A failed start\<close>

text \<open>
  C4, as the spec states it: a failure of the request made at the start of the
  session clears the initial-loading flag. After a mount for 0xA and the rejection of
  \<open>startFetchingTransfers\<close>, the flag is still set.
\<close>

theorem failed_start_counterexample:
  "initialLoading (run (mount True (Some ''0xA'') Undefined 0 :: nat view)
      [StartFetchingRejected]) = True \<and>
   console (run (mount True (Some ''0xA'') Undefined 0 :: nat view)
      [StartFetchingRejected])
     = [''Error in txHistoryClient::startFetchingTransfers call'']"
  by (simp add: run_def mount_def initial_view_def view_defs)

text \<open>
  C4, amended: a failure of the request made at the start of the session is caught and
  logged with one \<open>console.error\<close>; the initial-loading flag, the snapshots and the
  armed timer are as they were before the failure.
\<close>

theorem failed_start_logged:
  "console (step s StartFetchingRejected)
     = console s @ [''Error in txHistoryClient::startFetchingTransfers call''] \<and>
   initialLoading (step s StartFetchingRejected) = initialLoading s \<and>
   rawFilledTx (step s StartFetchingRejected) = rawFilledTx s \<and>
   rawOngoingTx (step s StartFetchingRejected) = rawOngoingTx s \<and>
   timeouts (step s StartFetchingRejected) = timeouts s \<and>
   client_calls (step s StartFetchingRejected) = client_calls s"
  by (simp add: view_defs)

subsection \<open>The deadline timer across account changes and unmounting\<close>

lemma settled_mount: "settled (mount c a stored t0)"
  by (auto simp add: settled_def mount_def initial_view_def view_defs split: list.splits)

lemma settled_account_change: "settled s \<Longrightarrow> settled (rerender (account_change a s))"
  by (auto simp add: settled_def view_defs split: option.splits list.splits)

lemma settled_listener: "settled s \<Longrightarrow> settled (TransfersUpdated_listener f p d s)"
  by (auto simp add: settled_def view_defs split: list.splits)

lemma settled_catch: "settled s \<Longrightarrow> settled (startFetchingTransfers_catch s)"
  by (auto simp add: settled_def view_defs split: list.splits)

lemma settled_fire: "settled s \<Longrightarrow> settled (fire e s)"
  by (auto simp add: settled_def fire_def view_defs split: option.splits list.splits)

lemma settled_fires: "settled s \<Longrightarrow> settled (foldl (\<lambda>s' e. fire e s') s es)"
  by (induction es arbitrary: s) (simp_all add: settled_fire)

lemma settled_elapse: "settled s \<Longrightarrow> settled (elapse dt s)"
  unfolding elapse_def
  by (rule settled_fires) (auto simp add: settled_def split: list.splits)

lemma settled_step: "settled s \<Longrightarrow> settled (step s ev)"
  by (cases ev)
     (simp_all add: settled_account_change settled_listener settled_catch settled_elapse)

lemma settled_run: "settled s \<Longrightarrow> settled (run s evs)"
  unfolding run_def by (induction evs arbitrary: s) (simp_all add: settled_step)

lemma settled_reachable: "settled (run (mount c a stored t0) evs)"
  by (rule settled_run) (rule settled_mount)

lemma settled_at_most_one: "settled s \<Longrightarrow> length (timeouts s) \<le> 1"
  by (auto simp add: settled_def split: list.splits)

lemma settled_unmount_timeouts: "settled s \<Longrightarrow> timeouts (unmount s) = []"
  by (auto simp add: settled_def unmount_def view_defs split: list.splits option.splits)

lemma unmount_client_calls:
  "client_calls (unmount s) =
     client_calls s @
     (if tracked s (account s) then [StopFetchingTransfers (the (account s))] else [])"
  by (auto simp add: unmount_def view_defs split: option.splits)

lemma settled_switch_timeouts:
  "settled s \<Longrightarrow> tracked s (Some b) \<Longrightarrow> Some b \<noteq> account s \<Longrightarrow>
     timeouts (step s (AccountChanged (Some b))) =
       [\<lparr>handle = next_handle s, due = now s + MAX_TIME_FOR_FETCHING_TX, closure_account = b\<rparr>]"
  by (auto simp add: settled_def view_defs split: option.splits list.splits)

lemma switch_client_calls:
  "tracked s (Some b) \<Longrightarrow> Some b \<noteq> account s \<Longrightarrow>
     client_calls (step s (AccountChanged (Some b))) =
       client_calls s
       @ (if tracked s (account s) then [StopFetchingTransfers (the (account s))] else [])
       @ [StartFetchingTransfers b]"
  by (auto simp add: view_defs split: option.splits)

text \<open>
  C3, as the spec states it: no timer is armed while the old one is still armed, and
  every account change disarms the armed timer together with the stop request. When
  the account changes from 0xA to 0xB the second effect arms the timer of 0xB while the
  timer of 0xA is still in the queue (it leaves the queue in the render that follows);
  and when the account changes from 0xA to none, the timer of 0xA stays armed.
\<close>

theorem two_timers_counterexample:
  "timeouts (account_change (Some ''0xB'') (mount True (Some ''0xA'') Undefined 0 :: nat view))
     = [\<lparr>handle = 1, due = 300000, closure_account = ''0xA''\<rparr>,
        \<lparr>handle = 2, due = 300000, closure_account = ''0xB''\<rparr>] \<and>
   timeouts (step (mount True (Some ''0xA'') Undefined 0 :: nat view) (AccountChanged None))
     = [\<lparr>handle = 1, due = 300000, closure_account = ''0xA''\<rparr>]"
  by (simp add: mount_def initial_view_def view_defs MAX_TIME_FOR_FETCHING_TX_def)

text \<open>
  C3, amended. In every state \<open>s\<close> the hook reaches from its mount, each event handled
  to the end (the render that follows a change of \<open>timer\<close> included): at most one
  deadline timer is armed; unmounting makes the stop request for the tracked account and
  leaves no timer armed; and a change to another tracked account \<open>b\<close> makes the stop
  request for the old account, then the start request for \<open>b\<close>, and leaves exactly the
  new 5-minute timer of \<open>b\<close> armed, the old one being disarmed after the new one was
  armed.
\<close>

theorem one_timer_after_render:
  assumes "s = run (mount c a stored tm) evs"
  shows "length (timeouts s) \<le> 1 \<and>
    timeouts (unmount s) = [] \<and>
    client_calls (unmount s) =
      client_calls s @
      (if tracked s (account s) then [StopFetchingTransfers (the (account s))] else []) \<and>
    (tracked s (Some b) \<and> Some b \<noteq> account s \<longrightarrow>
       timeouts (step s (AccountChanged (Some b))) =
         [\<lparr>handle = next_handle s, due = now s + 5 * 60 * 1000, closure_account = b\<rparr>] \<and>
       client_calls (step s (AccountChanged (Some b))) =
         client_calls s
         @ (if tracked s (account s) then [StopFetchingTransfers (the (account s))] else [])
         @ [StartFetchingTransfers b])"
proof -
  have st: "settled s"
    unfolding assms by (rule settled_reachable)
  have one: "length (timeouts s) \<le> 1"
    using st by (rule settled_at_most_one)
  have un: "timeouts (unmount s) = []"
    using st by (rule settled_unmount_timeouts)
  have sw: "timeouts (step s (AccountChanged (Some b))) =
      [\<lparr>handle = next_handle s, due = now s + 5 * 60 * 1000, closure_account = b\<rparr>]"
    if "tracked s (Some b)" "Some b \<noteq> account s"
    using settled_switch_timeouts [OF st that] by (simp add: MAX_TIME_FOR_FETCHING_TX_def)
  show ?thesis
    using one un sw unmount_client_calls [of s] switch_client_calls [of s b] by blast
qed

theorem one_timer_after_render_witness:
  "length (timeouts (run (mount True (Some ''0xA'') Undefined 0 :: nat view) [])) \<le> 1 \<and>
   timeouts (unmount (run (mount True (Some ''0xA'') Undefined 0 :: nat view) [])) = [] \<and>
   client_calls (unmount (run (mount True (Some ''0xA'') Undefined 0 :: nat view) []))
     = [StartFetchingTransfers ''0xA'', StopFetchingTransfers ''0xA''] \<and>
   timeouts (step (run (mount True (Some ''0xA'') Undefined 0 :: nat view) [])
       (AccountChanged (Some ''0xB'')))
     = [\<lparr>handle = 2, due = 300000, closure_account = ''0xB''\<rparr>] \<and>
   client_calls (step (run (mount True (Some ''0xA'') Undefined 0 :: nat view) [])
       (AccountChanged (Some ''0xB'')))
     = [StartFetchingTransfers ''0xA'', StopFetchingTransfers ''0xA'',
        StartFetchingTransfers ''0xB'']"
proof -
  let ?s = "run (mount True (Some ''0xA'') Undefined 0 :: nat view) []"
  have v: "tracked ?s (Some ''0xB'') \<and> Some ''0xB'' \<noteq> account ?s \<and>
      tracked ?s (Some ''0xA'') \<and> account ?s = Some ''0xA'' \<and>
      client_calls ?s = [StartFetchingTransfers ''0xA''] \<and> next_handle ?s = 2 \<and> now ?s = 0"
    by (simp add: run_def mount_def initial_view_def view_defs)
  show ?thesis
    using one_timer_after_render [where s = ?s and c = True and a = "Some ''0xA''"
        and stored = Undefined and tm = 0 and evs = "[]" and b = "''0xB''", OF refl] v
    by simp
qed

subsection \<open>The deadline\<close>











section \<open>Properties of the liquidity form\<close>

lemmas form_defs = checkIfUserHasToApprove_def allowance_effect_def handleApprove_def
  approveOrPoolTransactionHandler_def FormButton_onClick_def emit_def refresh_callback_def
  wait_def MaxButton_onClick_def truthy_def

subsection \<open>Evaluating the conversions\<close>

lemmas literal_defs = Number_gt_0_def StringNumericLiteral_def StrWhiteSpaceChar_def
  NonDecimalIntegerLiteral_def StrDecimalLiteral_def StrUnsignedDecimalLiteral_def
  DecimalDigit_def ExponentPart_opt_def SignedInteger_def digits_MV_def digit_in_radix_def

lemmas toWeiSafe_defs = toWeiSafe_def DecimalDigit_def digits_MV_def digit_in_radix_def

lemma replicate_pos: "0 < n \<Longrightarrow> replicate n c = c # replicate (n - 1) c"
  by (cases n) simp_all

lemma decimal_small: "n < 10 \<Longrightarrow> decimal n = [''0123456789'' ! n]"
  by (subst decimal.simps) simp

lemma decimal_large:
  "10 \<le> n \<Longrightarrow> decimal n = decimal (n div 10) @ [''0123456789'' ! (n mod 10)]"
  by (subst decimal.simps) simp

lemmas format_defs = formatEther_def formatUnits_def fixed_string_def strip_trailing_zeros_def
  decimal_small decimal_large replicate_pos

lemma MAX_UINT_VAL_eq: "MAX_UINT_VAL = 2 ^ 256 - 1"
  by (simp add: MAX_UINT_VAL_def unsigned_minus_1_eq_mask mask_eq_exp_minus_1)

lemma not_numeric_abc: "\<not> Number_gt_0 ''abc''"
  by (simp add: literal_defs)

lemma Number_gt_0_example: "Number_gt_0 ''1.5''"
  by (simp add: literal_defs)

text \<open>The scenario of the spec: "1.5" at 18 decimals is 1500000000000000000.\<close>

lemma toWeiSafe_example: "toWeiSafe ''1.5'' (Some 18) = Some 1500000000000000000"
  by (simp add: toWeiSafe_defs)

lemma toWeiSafe_gas: "toWeiSafe ''0.1'' None = Some 100000000000000000"
  by (simp add: toWeiSafe_defs)

text \<open>A formatted amount begins with a minus sign exactly when the value is negative.\<close>

lemma digit_not_minus: "n < 10 \<Longrightarrow> ''0123456789'' ! n \<noteq> CHR ''-''"
proof -
  assume "n < 10"
  then have "''0123456789'' ! n \<in> set ''0123456789''"
    by (intro nth_mem) simp
  then show ?thesis by auto
qed

lemma decimal_digits: "decimal n \<noteq> [] \<and> CHR ''-'' \<notin> set (decimal n)"
proof (induction n rule: decimal.induct)
  case (1 n)
  show ?case
  proof (cases "n < 10")
    case True
    then show ?thesis
      using digit_not_minus [of n] by (simp add: decimal_small)
  next
    case False
    then have "n mod 10 < 10" "10 \<le> n" by simp_all
    then show ?thesis
      using 1 False digit_not_minus [of "n mod 10"] by (simp add: decimal_large)
  qed
qed

lemma hd_decimal: "hd (decimal n @ r) \<noteq> CHR ''-''"
  using decimal_digits [of n] by (cases "decimal n") auto

lemma formatEther_eq: "formatEther wei = fixed_string wei 18"
  by (simp add: formatEther_def formatUnits_def)

lemma fixed_string_sign: "(hd (fixed_string v d) = CHR ''-'') = (v < 0)"
proof (cases "v < 0")
  case True
  then show ?thesis by (simp add: fixed_string_def Let_def)
next
  case False
  have "hd (decimal n @ r) \<noteq> CHR ''-''" for n r
    by (rule hd_decimal)
  from this [of _ "[]"] this False show ?thesis
    by (simp add: fixed_string_def Let_def)
qed

text \<open>
  A string that begins with a minus sign is not read as a number greater than 0, and
  so a negative formatted amount is not.
\<close>

lemma dropWhile_snoc:
  "\<not> P x \<Longrightarrow> dropWhile P (xs @ [x]) = dropWhile P xs @ [x]"
  by (induction xs) simp_all

lemma trim_minus:
  "rev (dropWhile StrWhiteSpaceChar (rev (dropWhile StrWhiteSpaceChar (CHR ''-'' # r)))) =
     CHR ''-'' # rev (dropWhile StrWhiteSpaceChar (rev r))"
proof -
  have m: "\<not> StrWhiteSpaceChar CHR ''-''"
    by (simp add: StrWhiteSpaceChar_def)
  then show ?thesis
    by (simp add: dropWhile_snoc)
qed

lemma literal_minus:
  "StringNumericLiteral (CHR ''-'' # r) =
     StrUnsignedDecimalLiteral True (rev (dropWhile StrWhiteSpaceChar (rev r)))"
proof -
  have n: "NonDecimalIntegerLiteral (CHR ''-'' # t) = None" for t
    by (simp add: NonDecimalIntegerLiteral_def split: list.splits)
  show ?thesis
    unfolding StringNumericLiteral_def Let_def trim_minus
    by (simp add: n StrDecimalLiteral_def)
qed

lemma negative_literal: "\<not> Number_gt_0 (CHR ''-'' # r)"
proof -
  let ?t = "rev (dropWhile StrWhiteSpaceChar (rev r))"
  have u: "(case StrUnsignedDecimalLiteral True ?t of
        NotNumeric \<Rightarrow> True | InfinityLiteral neg \<Rightarrow> neg | DecimalLiteral neg m e \<Rightarrow> neg)"
    by (simp add: StrUnsignedDecimalLiteral_def Let_def split: option.splits)
  show ?thesis
    unfolding Number_gt_0_def literal_minus
    using u by (cases "StrUnsignedDecimalLiteral True ?t") simp_all
qed

lemma fixed_string_negative: "v < 0 \<Longrightarrow> \<not> Number_gt_0 (fixed_string v d)"
  by (simp add: fixed_string_def Let_def negative_literal)

subsection \<open>The click on the form button, branch by branch\<close>

lemma approve_amounts_append:
  "approve_amounts (cs @ ds) = approve_amounts cs @ approve_amounts ds"
  by (induction cs rule: approve_amounts.induct) simp_all

lemma click_no_provider:
  "\<not> provider s \<Longrightarrow>
     FormButton_onClick toWei approved added s = s\<lparr>calls := calls s @ [OnboardInit]\<rparr>"
  by (simp add: FormButton_onClick_def approveOrPoolTransactionHandler_def)

lemma click_approve:
  "provider s \<Longrightarrow> isConnected s \<Longrightarrow> userNeedsToApprove s \<Longrightarrow>
     calls (FormButton_onClick toWei approved added s) =
       calls s @ [Approve INFINITE_APPROVAL_AMOUNT (bridgeAddress s)] @
       (case approved of Resolved (Some hash) \<Rightarrow> [NotifyHash hash] | _ \<Rightarrow> [])"
  by (simp add: FormButton_onClick_def approveOrPoolTransactionHandler_def handleApprove_def
      Let_def split: outcome.splits option.splits)

lemma click_idle:
  "provider s \<Longrightarrow> \<not> (isConnected s \<and> userNeedsToApprove s) \<Longrightarrow>
   \<not> (isConnected s \<and> Number_gt_0 (amount s) \<and> signer s) \<Longrightarrow>
     FormButton_onClick toWei approved added s = s"
  by (cases "isConnected s"; cases "signer s"; cases "Number_gt_0 (amount s)")
     (simp_all add: FormButton_onClick_def approveOrPoolTransactionHandler_def)

lemma click_rejected_amount:
  "provider s \<Longrightarrow> \<not> (isConnected s \<and> userNeedsToApprove s) \<Longrightarrow>
   isConnected s \<Longrightarrow> Number_gt_0 (amount s) \<Longrightarrow> signer s \<Longrightarrow>
   toWei (amount s) (Some (decimals s)) = None \<Longrightarrow>
     calls (FormButton_onClick toWei approved added s) = calls s"
  by (simp add: FormButton_onClick_def approveOrPoolTransactionHandler_def)

lemma click_submit:
  "provider s \<Longrightarrow> \<not> (isConnected s \<and> userNeedsToApprove s) \<Longrightarrow>
   isConnected s \<Longrightarrow> Number_gt_0 (amount s) \<Longrightarrow> signer s \<Longrightarrow>
   toWei (amount s) (Some (decimals s)) = Some weiAmount \<Longrightarrow>
     calls (FormButton_onClick toWei approved added s) =
       calls s @
       [if symbol s = ''ETH'' then AddEthLiquidity (bridgeAddress s) weiAmount
        else AddTokenLiquidity (bridgeAddress s) weiAmount] @
       (case added of
          Rejected \<Rightarrow> []
        | Resolved h \<Rightarrow> GetTx # (if truthy h then [NotifyHash (the h)] else []))"
  by (simp add: FormButton_onClick_def approveOrPoolTransactionHandler_def Let_def
      split: outcome.splits)

lemma click_submitted:
  assumes "provider s" and "isConnected s" and "\<not> userNeedsToApprove s"
    and "Number_gt_0 (amount s)" and "signer s"
    and "toWei (amount s) (Some (decimals s)) = Some weiAmount" and "hash \<noteq> []"
  shows "FormButton_onClick toWei approved (Resolved (Some hash)) s =
    s\<lparr>txSubmitted := True,
      calls := calls s @
        [if symbol s = ''ETH'' then AddEthLiquidity (bridgeAddress s) weiAmount
         else AddTokenLiquidity (bridgeAddress s) weiAmount,
         GetTx, NotifyHash hash],
      emitters := emitters s @
        [(hash, LiquidityListeners hash (connected_account s) (bridgeAddress s))]\<rparr>"
  using assms
  by (simp add: FormButton_onClick_def approveOrPoolTransactionHandler_def Let_def truthy_def)

lemma click_liquidity_calls:
  "filter is_liquidity_call (calls (FormButton_onClick toWei approved added s)) =
     filter is_liquidity_call (calls s) @
     (if provider s \<and> isConnected s \<and> \<not> userNeedsToApprove s \<and>
         Number_gt_0 (amount s) \<and> signer s
      then (case toWei (amount s) (Some (decimals s)) of
              None \<Rightarrow> []
            | Some weiAmount \<Rightarrow>
                [if symbol s = ''ETH'' then AddEthLiquidity (bridgeAddress s) weiAmount
                 else AddTokenLiquidity (bridgeAddress s) weiAmount])
      else [])"
proof (cases "provider s")
  case False
  then show ?thesis by (simp add: click_no_provider)
next
  case p: True
  show ?thesis
  proof (cases "isConnected s \<and> userNeedsToApprove s")
    case True
    then show ?thesis
      using p by (simp add: click_approve split: outcome.splits option.splits)
  next
    case n: False
    show ?thesis
    proof (cases "isConnected s \<and> Number_gt_0 (amount s) \<and> signer s")
      case False
      then show ?thesis
        using p n click_idle [of s toWei approved added] by auto
    next
      case True
      show ?thesis
      proof (cases "toWei (amount s) (Some (decimals s))")
        case None
        then show ?thesis
          using p n True by (simp add: click_rejected_amount)
      next
        case (Some weiAmount)
        then show ?thesis
          using p n True
          by (simp add: click_submit truthy_def split: outcome.splits option.splits)
      qed
    qed
  qed
qed

subsection \<open>The allowance check\<close>

text \<open>
  C2, as the spec states it: the check sets the flag to false when the allowance is at
  least the required amount. The token balance is 100 and the allowance 50: the check
  sets the flag. The balance drops to 40 and the check runs again (\<open>balance\<close> is a
  dependency of \<open>checkIfUserHasToApprove\<close>): the allowance 50 covers it, and the flag
  is still set.
\<close>

theorem allowance_sufficient_counterexample:
  "userNeedsToApprove
     (allowance_effect (Resolved 50)
        (initial_form True True True (Some ''0xA'') ''0xB'' ''0xT'' 6 ''USDC'' 100 '''')) \<and>
   userNeedsToApprove
     (allowance_effect (Resolved 50)
        ((allowance_effect (Resolved 50)
            (initial_form True True True (Some ''0xA'') ''0xB'' ''0xT'' 6 ''USDC'' 100 ''''))
         \<lparr>balance := 40\<rparr>))"
  by (simp add: form_defs initial_form_def)

text \<open>
  C2, amended. For a connected wallet with a signer and an account, and an asset other
  than ETH, the allowance check queries the allowance once and sets the needs-approval
  flag when the answer is less than the token balance; when the answer is at least the
  balance it leaves the flag as it was and logs nothing; when the query fails it writes
  one line to the console and leaves the flag as it was. For ETH the check is not run:
  no query is made and the whole state, the flag included, is as it was.
\<close>

theorem allowance_check_flag:
  assumes "isConnected s" and "signer s" and "truthy (connected_account s)"
    and "symbol s \<noteq> ''ETH''"
  shows "(allowance < balance s \<longrightarrow>
       userNeedsToApprove (allowance_effect (Resolved allowance) s)) \<and>
    (balance s \<le> allowance \<longrightarrow>
       userNeedsToApprove (allowance_effect (Resolved allowance) s) = userNeedsToApprove s) \<and>
    userNeedsToApprove (allowance_effect Rejected s) = userNeedsToApprove s \<and>
    userNeedsToApprove (allowance_effect answer (s\<lparr>symbol := ''ETH''\<rparr>)) = userNeedsToApprove s \<and>
    console_output (allowance_effect Rejected s) =
      console_output s @ [''err in check approval call''] \<and>
    console_output (allowance_effect (Resolved allowance) s) = console_output s \<and>
    calls (allowance_effect answer s) =
      calls s @ [Allowance (tokenAddress s) (the (connected_account s)) (bridgeAddress s)] \<and>
    allowance_effect answer (s\<lparr>symbol := ''ETH''\<rparr>) = s\<lparr>symbol := ''ETH''\<rparr>"
  using assms by (simp add: form_defs Let_def split: outcome.splits option.splits)

theorem allowance_check_flag_witness:
  "userNeedsToApprove
     (allowance_effect (Resolved 50)
        (initial_form True True True (Some ''0xA'') ''0xB'' ''0xT'' 6 ''USDC'' 100 '''')) \<and>
   userNeedsToApprove
     (allowance_effect (Resolved 100)
        (initial_form True True True (Some ''0xA'') ''0xB'' ''0xT'' 6 ''USDC'' 100 '''')) = False \<and>
   userNeedsToApprove
     (allowance_effect Rejected
        (initial_form True True True (Some ''0xA'') ''0xB'' ''0xT'' 6 ''USDC'' 100 '''')) = False \<and>
   console_output
     (allowance_effect Rejected
        (initial_form True True True (Some ''0xA'') ''0xB'' ''0xT'' 6 ''USDC'' 100 ''''))
     = [''err in check approval call''] \<and>
   calls
     (allowance_effect Rejected
        (initial_form True True True (Some ''0xA'') ''0xB'' ''0xT'' 6 ''USDC'' 100 ''''))
     = [Allowance ''0xT'' ''0xA'' ''0xB''] \<and>
   allowance_effect (Resolved 0)
     ((initial_form True True True (Some ''0xA'') ''0xB'' ''0xT'' 6 ''USDC'' 100 '''')
      \<lparr>symbol := ''ETH''\<rparr>)
     = (initial_form True True True (Some ''0xA'') ''0xB'' ''0xT'' 6 ''USDC'' 100 '''')
       \<lparr>symbol := ''ETH''\<rparr>"
proof -
  let ?s = "initial_form True True True (Some ''0xA'') ''0xB'' ''0xT'' 6 ''USDC'' 100 ''''"
  have h: "isConnected ?s" "signer ?s" "truthy (connected_account ?s)" "symbol ?s \<noteq> ''ETH''"
    by (simp_all add: initial_form_def truthy_def)
  have v: "balance ?s = 100" "userNeedsToApprove ?s = False" "console_output ?s = []"
    "calls ?s = []" "tokenAddress ?s = ''0xT''" "connected_account ?s = Some ''0xA''"
    "bridgeAddress ?s = ''0xB''"
    by (simp_all add: initial_form_def)
  have a: "userNeedsToApprove (allowance_effect (Resolved 50) ?s)"
    using allowance_check_flag [OF h, where allowance = 50 and answer = "Resolved 0"] v
    by simp
  have b: "userNeedsToApprove (allowance_effect (Resolved 100) ?s) = False \<and>
      userNeedsToApprove (allowance_effect Rejected ?s) = False \<and>
      console_output (allowance_effect Rejected ?s) = [''err in check approval call''] \<and>
      calls (allowance_effect Rejected ?s) = [Allowance ''0xT'' ''0xA'' ''0xB''] \<and>
      allowance_effect (Resolved 0) (?s\<lparr>symbol := ''ETH''\<rparr>) = ?s\<lparr>symbol := ''ETH''\<rparr>"
    using allowance_check_flag [OF h, where allowance = 100 and answer = "Rejected"]
      allowance_check_flag [OF h, where allowance = 100 and answer = "Resolved 0"] v
    by simp
  show ?thesis
    using a b by blast
qed

subsection \<open>The max button\<close>

text \<open>
  C6, as the spec states it: the amount set by the max button is never negative. With
  ETH and a balance of 0, the button sets the amount "-0.1".
\<close>

theorem max_amount_counterexample:
  "amount (MaxButton_onClick toWeiSafe
     (initial_form True True True (Some ''0xA'') ''0xB'' ''0xT'' 18 ''ETH'' 0 '''')) = ''-0.1''"
  by (simp add: MaxButton_onClick_def initial_form_def toWeiSafe_gas format_defs)

text \<open>
  C6, amended. For ETH the max button sets the amount to the balance less the gas
  reserve (what \<open>toWeiSafe\<close> gives for "0.1"), formatted as ether. The amount set is
  negative exactly when the balance is less than the reserve; such an amount is not
  submitted, since \<open>Number(amount) > 0\<close> is false for it and a click on the form button
  then makes no liquidity call.
\<close>

theorem max_amount_sign:
  assumes "isConnected s" and "symbol s = ''ETH''" and "toWei ''0.1'' None = Some gas"
  shows "amount (MaxButton_onClick toWei s) = formatEther (balance s - gas) \<and>
    (hd (amount (MaxButton_onClick toWei s)) = CHR ''-'') = (balance s < gas) \<and>
    (balance s < gas \<longrightarrow>
       \<not> Number_gt_0 (amount (MaxButton_onClick toWei s)) \<and>
       filter is_liquidity_call
         (calls (FormButton_onClick toWei approved added (MaxButton_onClick toWei s))) =
       filter is_liquidity_call (calls s))"
proof -
  have a: "MaxButton_onClick toWei s = s\<lparr>amount := formatEther (balance s - gas)\<rparr>"
    using assms by (simp add: MaxButton_onClick_def)
  have n: "\<not> Number_gt_0 (formatEther (balance s - gas))" if "balance s < gas"
    using that by (simp add: formatEther_eq fixed_string_negative)
  show ?thesis
    unfolding a using n
    by (simp add: click_liquidity_calls formatEther_eq fixed_string_sign)
qed

theorem max_amount_sign_witness:
  "amount (MaxButton_onClick toWeiSafe
     (initial_form True True True (Some ''0xA'') ''0xB'' ''0xT'' 18 ''ETH''
        2000000000000000000 '''')) = ''1.9'' \<and>
   hd (amount (MaxButton_onClick toWeiSafe
     (initial_form True True True (Some ''0xA'') ''0xB'' ''0xT'' 18 ''ETH''
        2000000000000000000 ''''))) \<noteq> CHR ''-'' \<and>
   hd (amount (MaxButton_onClick toWeiSafe
     (initial_form True True True (Some ''0xA'') ''0xB'' ''0xT'' 18 ''ETH''
        5 ''''))) = CHR ''-'' \<and>
   \<not> Number_gt_0 (amount (MaxButton_onClick toWeiSafe
     (initial_form True True True (Some ''0xA'') ''0xB'' ''0xT'' 18 ''ETH''
        5 ''''))) \<and>
   filter is_liquidity_call
     (calls (FormButton_onClick toWeiSafe Rejected (Resolved (Some ''0xH''))
        (MaxButton_onClick toWeiSafe
           (initial_form True True True (Some ''0xA'') ''0xB'' ''0xT'' 18 ''ETH''
              5 '''')))) = []"
proof -
  let ?s = "initial_form True True True (Some ''0xA'') ''0xB'' ''0xT'' 18 ''ETH''
        2000000000000000000 ''''"
  let ?p = "initial_form True True True (Some ''0xA'') ''0xB'' ''0xT'' 18 ''ETH'' 5 ''''"
  have h: "isConnected ?s" "symbol ?s = ''ETH''"
    by (simp_all add: initial_form_def)
  have k: "isConnected ?p" "symbol ?p = ''ETH''"
    by (simp_all add: initial_form_def)
  have v: "balance ?s = 2000000000000000000" "balance ?p = 5" "calls ?p = []"
    by (simp_all add: initial_form_def)
  have f: "formatEther (2000000000000000000 - 100000000000000000) = ''1.9''"
    by (simp add: format_defs)
  have a: "amount (MaxButton_onClick toWeiSafe ?s) = ''1.9'' \<and>
      hd (amount (MaxButton_onClick toWeiSafe ?s)) \<noteq> CHR ''-''"
    using max_amount_sign [where toWei = toWeiSafe and s = ?s and gas = 100000000000000000,
        OF h toWeiSafe_gas] v f
    by simp
  have b: "hd (amount (MaxButton_onClick toWeiSafe ?p)) = CHR ''-'' \<and>
      \<not> Number_gt_0 (amount (MaxButton_onClick toWeiSafe ?p)) \<and>
      filter is_liquidity_call
        (calls (FormButton_onClick toWeiSafe Rejected (Resolved (Some ''0xH''))
           (MaxButton_onClick toWeiSafe ?p))) = []"
    using max_amount_sign [where toWei = toWeiSafe and s = ?p and gas = 100000000000000000
        and approved = Rejected and added = "Resolved (Some ''0xH'')",
        OF k toWeiSafe_gas, THEN conjunct2] v
    by simp
  show ?thesis
    using a b by blast
qed

subsection \<open>The approval amount\<close>

text \<open>
  C7. Whatever the amount entered, the conversion and the answers of the wallet, a click
  on the form button requests an approval only when the wallet is connected and the
  flag is set, and the amount it requests is \<open>2 ^ 256 - 1\<close>.
\<close>

theorem approval_amount_is_max:
  "approve_amounts (calls (FormButton_onClick toWei approved added s)) =
     approve_amounts (calls s) @
     (if provider s \<and> isConnected s \<and> userNeedsToApprove s then [2 ^ 256 - 1] else [])"
  by (simp add: form_defs approve_amounts_append INFINITE_APPROVAL_AMOUNT_def MAX_UINT_VAL_eq
      Let_def split: outcome.splits option.splits)

subsection \<open>The primary submission\<close>

text \<open>
  C8. A click on the form button makes a liquidity call only when \<open>Number(amount) > 0\<close>
  and a signer is there (and the wallet is connected with no approval pending, and the
  amount converts); the call is \<open>addEthLiquidity\<close> exactly when the symbol is ETH, and
  \<open>addTokenLiquidity\<close> otherwise. When the amount is not a number greater than 0, as
  "abc", a click in the state where the button submits changes nothing and calls
  nothing.
\<close>

theorem primary_submission:
  "filter is_liquidity_call (calls (FormButton_onClick toWei approved added s)) =
     filter is_liquidity_call (calls s) @
     (if provider s \<and> isConnected s \<and> \<not> userNeedsToApprove s \<and>
         Number_gt_0 (amount s) \<and> signer s
      then (case toWei (amount s) (Some (decimals s)) of
              None \<Rightarrow> []
            | Some weiAmount \<Rightarrow>
                [if symbol s = ''ETH'' then AddEthLiquidity (bridgeAddress s) weiAmount
                 else AddTokenLiquidity (bridgeAddress s) weiAmount])
      else []) \<and>
   (provider s \<and> \<not> (isConnected s \<and> userNeedsToApprove s) \<and> \<not> Number_gt_0 (amount s) \<longrightarrow>
      FormButton_onClick toWei approved added s = s) \<and>
   \<not> Number_gt_0 ''abc''"
  using click_liquidity_calls [of toWei approved added s] click_idle [of s toWei approved added]
    not_numeric_abc
  by blast


theorem primary_submission_witness:
  "filter is_liquidity_call (calls (FormButton_onClick toWeiSafe Rejected (Resolved (Some ''0xH''))
     (initial_form True True True (Some ''0xA'') ''0xB'' ''0xT'' 18 ''ETH'' 0 ''1.5'')))
     = [AddEthLiquidity ''0xB'' 1500000000000000000] \<and>
   filter is_liquidity_call (calls (FormButton_onClick toWeiSafe Rejected (Resolved (Some ''0xH''))
     (initial_form True True True (Some ''0xA'') ''0xB'' ''0xT'' 18 ''WETH'' 0 ''1.5'')))
     = [AddTokenLiquidity ''0xB'' 1500000000000000000] \<and>
   FormButton_onClick toWeiSafe Rejected (Resolved (Some ''0xH''))
     (initial_form True True True (Some ''0xA'') ''0xB'' ''0xT'' 18 ''ETH'' 0 ''abc'')
     = initial_form True True True (Some ''0xA'') ''0xB'' ''0xT'' 18 ''ETH'' 0 ''abc''"
proof -
  let ?e = "initial_form True True True (Some ''0xA'') ''0xB'' ''0xT'' 18 ''ETH'' 0 ''1.5''"
  let ?w = "initial_form True True True (Some ''0xA'') ''0xB'' ''0xT'' 18 ''WETH'' 0 ''1.5''"
  let ?a = "initial_form True True True (Some ''0xA'') ''0xB'' ''0xT'' 18 ''ETH'' 0 ''abc''"
  have e: "provider ?e \<and> isConnected ?e \<and> \<not> userNeedsToApprove ?e \<and> signer ?e \<and>
      amount ?e = ''1.5'' \<and> decimals ?e = 18 \<and> symbol ?e = ''ETH'' \<and> calls ?e = [] \<and>
      bridgeAddress ?e = ''0xB''"
    by (simp add: initial_form_def)
  have w: "provider ?w \<and> isConnected ?w \<and> \<not> userNeedsToApprove ?w \<and> signer ?w \<and>
      amount ?w = ''1.5'' \<and> decimals ?w = 18 \<and> symbol ?w = ''WETH'' \<and> calls ?w = [] \<and>
      bridgeAddress ?w = ''0xB''"
    by (simp add: initial_form_def)
  have a: "provider ?a \<and> isConnected ?a \<and> \<not> userNeedsToApprove ?a \<and> amount ?a = ''abc''"
    by (simp add: initial_form_def)
  show ?thesis
    using primary_submission [of toWeiSafe Rejected "Resolved (Some ''0xH'')" ?e]
      primary_submission [of toWeiSafe Rejected "Resolved (Some ''0xH'')" ?w]
      primary_submission [of toWeiSafe Rejected "Resolved (Some ''0xH'')" ?a]
      e w a Number_gt_0_example toWeiSafe_example
    by simp
qed


subsection \<open>Confirmation\<close>

lemma emit_single:
  "filter (\<lambda>hl. fst hl = hash) (emitters s) = [(h, l)] \<Longrightarrow> emit hash ev s = listener l ev s"
  by (simp add: emit_def)

lemma refresh_callbacks_calls:
  "calls (foldl (\<lambda>s' r. refresh_callback r s') s rs) =
     calls s @
     concat (map (\<lambda>r. UpdatePool (refresh_bridge r) #
       (if truthy (refresh_acc r) then [UpdateUser (the (refresh_acc r)) (refresh_bridge r)]
        else [])) rs)"
  by (induction rs arbitrary: s) (simp_all add: refresh_callback_def)

lemma wait_calls:
  "calls (wait dt s) =
     calls s @
     concat (map (\<lambda>r. UpdatePool (refresh_bridge r) #
       (if truthy (refresh_acc r) then [UpdateUser (the (refresh_acc r)) (refresh_bridge r)]
        else []))
       (filter (\<lambda>r. refresh_due r \<le> clock s + dt) (refreshes s)))"
  by (simp add: wait_def refresh_callbacks_calls)

text \<open>
  C9. A click submits a liquidity transaction and the pool client gives a transaction
  with the hash \<open>hash\<close>, on which the form has no listener yet (state \<open>sc\<close>: the form is
  submitting). Later, in any state \<open>s1\<close> in which the listeners on that hash are
  those the click has put there, whatever else has happened and however long it took,
  the notifier emits \<open>txConfirmed\<close> for the hash (state \<open>s2\<close>). The form shows success
  and is no longer submitting, the deposit URL ends with the hash, no call is made at
  the confirmation, and one refresh is added to the pending ones, due 30000 ms after
  the confirmation: the calls made when time passes after the confirmation are those
  that would have been made without it, followed, once 30000 ms have passed and not
  before, by \<open>updatePool\<close> and, when the click had an account, \<open>updateUser\<close>, for the
  bridge and the account of the click.
\<close>

theorem confirmation_schedules_refresh:
  assumes "provider s" and "isConnected s" and "\<not> userNeedsToApprove s"
    and "Number_gt_0 (amount s)" and "signer s"
    and "toWei (amount s) (Some (decimals s)) = Some weiAmount" and "hash \<noteq> []"
    and "filter (\<lambda>hl. fst hl = hash) (emitters s) = []"
    and "sc = FormButton_onClick toWei approved (Resolved (Some hash)) s"
    and "filter (\<lambda>hl. fst hl = hash) (emitters s1) =
         filter (\<lambda>hl. fst hl = hash) (emitters sc)"
    and "s2 = emit hash TxConfirmed s1"
  shows "txSubmitted sc \<and> showSuccess sc = showSuccess s \<and>
    showSuccess s2 \<and> \<not> txSubmitted s2 \<and>
    depositUrl s2 = ''https://etherscan.io/tx/'' @ hash \<and>
    refreshes s2 =
      refreshes s1 @
      [\<lparr>refresh_due = clock s1 + 30000, refresh_bridge = bridgeAddress s,
        refresh_acc = connected_account s\<rparr>] \<and>
    calls s2 = calls s1 \<and>
    calls (wait dt s2) =
      calls (wait dt s1) @
      (if 30000 \<le> dt
       then UpdatePool (bridgeAddress s) #
         (if truthy (connected_account s)
          then [UpdateUser (the (connected_account s)) (bridgeAddress s)] else [])
       else [])"
proof -
  have sc: "sc = s\<lparr>txSubmitted := True,
      calls := calls s @
        [if symbol s = ''ETH'' then AddEthLiquidity (bridgeAddress s) weiAmount
         else AddTokenLiquidity (bridgeAddress s) weiAmount,
         GetTx, NotifyHash hash],
      emitters := emitters s @
        [(hash, LiquidityListeners hash (connected_account s) (bridgeAddress s))]\<rparr>"
    unfolding assms(9) using assms(1-7) by (rule click_submitted)
  have l: "filter (\<lambda>hl. fst hl = hash) (emitters s1) =
      [(hash, LiquidityListeners hash (connected_account s) (bridgeAddress s))]"
    unfolding assms(10) by (simp add: sc assms(8))
  have s2: "s2 = s1\<lparr>txSubmitted := False, showSuccess := True,
      depositUrl := ''https://etherscan.io/tx/'' @ hash,
      refreshes := refreshes s1 @
        [\<lparr>refresh_due = clock s1 + 30000, refresh_bridge = bridgeAddress s,
          refresh_acc = connected_account s\<rparr>]\<rparr>"
    unfolding assms(11) emit_single [OF l] by simp
  show ?thesis
    by (simp add: wait_calls s2) (simp add: sc)
qed

theorem confirmation_schedules_refresh_witness:
  "depositUrl (emit ''0xH'' TxConfirmed (wait 40000
     (FormButton_onClick toWeiSafe Rejected (Resolved (Some ''0xH''))
        ((initial_form True True True (Some ''0xA'') ''0xB'' ''0xT'' 18 ''ETH'' 0 ''1.5'')
         \<lparr>emitters := [(''0xP'', ApproveListeners)], clock := 1000\<rparr>))))
     = ''https://etherscan.io/tx/0xH'' \<and>
   showSuccess (emit ''0xH'' TxConfirmed (wait 40000
     (FormButton_onClick toWeiSafe Rejected (Resolved (Some ''0xH''))
        ((initial_form True True True (Some ''0xA'') ''0xB'' ''0xT'' 18 ''ETH'' 0 ''1.5'')
         \<lparr>emitters := [(''0xP'', ApproveListeners)], clock := 1000\<rparr>)))) \<and>
   refreshes (emit ''0xH'' TxConfirmed (wait 40000
     (FormButton_onClick toWeiSafe Rejected (Resolved (Some ''0xH''))
        ((initial_form True True True (Some ''0xA'') ''0xB'' ''0xT'' 18 ''ETH'' 0 ''1.5'')
         \<lparr>emitters := [(''0xP'', ApproveListeners)], clock := 1000\<rparr>))))
     = [\<lparr>refresh_due = 71000, refresh_bridge = ''0xB'', refresh_acc = Some ''0xA''\<rparr>] \<and>
   calls (wait 29999 (emit ''0xH'' TxConfirmed (wait 40000
     (FormButton_onClick toWeiSafe Rejected (Resolved (Some ''0xH''))
        ((initial_form True True True (Some ''0xA'') ''0xB'' ''0xT'' 18 ''ETH'' 0 ''1.5'')
         \<lparr>emitters := [(''0xP'', ApproveListeners)], clock := 1000\<rparr>)))))
     = [AddEthLiquidity ''0xB'' 1500000000000000000, GetTx, NotifyHash ''0xH''] \<and>
   calls (wait 30000 (emit ''0xH'' TxConfirmed (wait 40000
     (FormButton_onClick toWeiSafe Rejected (Resolved (Some ''0xH''))
        ((initial_form True True True (Some ''0xA'') ''0xB'' ''0xT'' 18 ''ETH'' 0 ''1.5'')
         \<lparr>emitters := [(''0xP'', ApproveListeners)], clock := 1000\<rparr>)))))
     = [AddEthLiquidity ''0xB'' 1500000000000000000, GetTx, NotifyHash ''0xH'',
        UpdatePool ''0xB'', UpdateUser ''0xA'' ''0xB'']"
proof -
  let ?s = "(initial_form True True True (Some ''0xA'') ''0xB'' ''0xT'' 18 ''ETH'' 0 ''1.5'')
         \<lparr>emitters := [(''0xP'', ApproveListeners)], clock := 1000\<rparr>"
  let ?sc = "FormButton_onClick toWeiSafe Rejected (Resolved (Some ''0xH'')) ?s"
  let ?s1 = "wait 40000 ?sc"
  have h: "provider ?s" "isConnected ?s" "\<not> userNeedsToApprove ?s" "Number_gt_0 (amount ?s)"
    "signer ?s" "toWeiSafe (amount ?s) (Some (decimals ?s)) = Some 1500000000000000000"
    "''0xH'' \<noteq> []" "filter (\<lambda>hl. fst hl = ''0xH'') (emitters ?s) = []"
    by (simp_all add: initial_form_def Number_gt_0_example toWeiSafe_example)
  have c: "?sc = ?s\<lparr>txSubmitted := True,
      calls := [AddEthLiquidity ''0xB'' 1500000000000000000, GetTx, NotifyHash ''0xH''],
      emitters := [(''0xP'', ApproveListeners),
        (''0xH'', LiquidityListeners ''0xH'' (Some ''0xA'') ''0xB'')]\<rparr>"
    using click_submitted [where toWei = toWeiSafe and s = ?s and approved = Rejected, OF h(1-7)]
    by (simp add: initial_form_def)
  have w: "?s1 = ?sc\<lparr>clock := 41000\<rparr>"
    unfolding c by (simp add: wait_def initial_form_def)
  have e: "filter (\<lambda>hl. fst hl = ''0xH'') (emitters ?s1) =
      filter (\<lambda>hl. fst hl = ''0xH'') (emitters ?sc)"
    by (simp add: w)
  have v: "truthy (connected_account ?s)" "connected_account ?s = Some ''0xA''"
    "bridgeAddress ?s = ''0xB''" "clock ?s1 = 41000" "refreshes ?s1 = []"
    "calls (wait 29999 ?s1) = [AddEthLiquidity ''0xB'' 1500000000000000000, GetTx, NotifyHash ''0xH'']"
    "calls (wait 30000 ?s1) = [AddEthLiquidity ''0xB'' 1500000000000000000, GetTx, NotifyHash ''0xH'']"
    unfolding w unfolding c by (simp_all add: initial_form_def truthy_def wait_def)
  have a: "depositUrl (emit ''0xH'' TxConfirmed ?s1) = ''https://etherscan.io/tx/0xH'' \<and>
      showSuccess (emit ''0xH'' TxConfirmed ?s1) \<and>
      refreshes (emit ''0xH'' TxConfirmed ?s1) =
        [\<lparr>refresh_due = 71000, refresh_bridge = ''0xB'', refresh_acc = Some ''0xA''\<rparr>] \<and>
      calls (wait 29999 (emit ''0xH'' TxConfirmed ?s1)) =
        [AddEthLiquidity ''0xB'' 1500000000000000000, GetTx, NotifyHash ''0xH'']"
    using confirmation_schedules_refresh [where toWei = toWeiSafe and s = ?s
          and approved = Rejected and dt = 29999 and ?s1.0 = ?s1, OF h refl e refl] v
    by simp
  have b: "calls (wait 30000 (emit ''0xH'' TxConfirmed ?s1)) =
      [AddEthLiquidity ''0xB'' 1500000000000000000, GetTx, NotifyHash ''0xH'',
       UpdatePool ''0xB'', UpdateUser ''0xA'' ''0xB'']"
    using confirmation_schedules_refresh [where toWei = toWeiSafe and s = ?s
          and approved = Rejected and dt = 30000 and ?s1.0 = ?s1, OF h refl e refl] v
    by simp
  show ?thesis
    using a b by blast
qed

end
